theory Spec2Isabelle
  imports
    Main
    "HOL-Library.Word"
    "HOL-Library.Signed_Division"
    "HOL-Library.Char_ord"
    "HOL-Library.List_Lexorder"
    "HOL-Library.Product_Lexorder"
    "HOL-Library.Multiset"
begin

section \<open>The fixture \<open>remove_evens\<close> of semantic_bugs.cpp\<close>

text \<open>
  \<^verbatim>\<open>
  void remove_evens(std::vector<int>& vec) {
      for (auto it = vec.begin(); it != vec.end(); ++it) {
          if (*it % 2 == 0) {
              vec.erase(it);
          }
      }
  }
  \<close>
  The vector is a list of 32-bit ints. An iterator is a position in the vector, or it has
  been invalidated: \<open>vec.erase(it)\<close> removes the element and invalidates \<open>it\<close> (the
  iterator that \<open>erase\<close> returns is discarded by the source). Incrementing or comparing an
  invalidated iterator, and dereferencing one past the end, are undefined behaviour, which
  the model returns as an error value.
\<close>

type_synonym cint = "32 word"

datatype undefined_behaviour = InvalidatedIterator | PastTheEnd

datatype iterator = At nat | Invalidated

definition erase :: "'a list \<Rightarrow> nat \<Rightarrow> 'a list" where
  "erase vec i = take i vec @ drop (Suc i) vec"

fun increment :: "iterator \<Rightarrow> undefined_behaviour + iterator" where
  "increment (At i) = Inr (At (Suc i))"
| "increment Invalidated = Inl InvalidatedIterator"

text \<open>The test \<open>*it % 2 == 0\<close>: C++ \<open>%\<close> truncates towards zero (\<open>smod\<close>).\<close>

definition is_even :: "cint \<Rightarrow> bool" where
  "is_even x = (sint x smod 2 = 0)"

function remove_evens_loop ::
  "cint list \<Rightarrow> iterator \<Rightarrow> undefined_behaviour + cint list" where
  "remove_evens_loop vec Invalidated = Inl InvalidatedIterator"
| "remove_evens_loop vec (At i) =
     (if i = length vec then Inr vec
      else if length vec < i then Inl PastTheEnd
      else
        (case (if is_even (vec ! i) then (erase vec i, Invalidated) else (vec, At i)) of
           (vec', it') \<Rightarrow>
             (case increment it' of
                Inl e \<Rightarrow> Inl e
              | Inr it'' \<Rightarrow> remove_evens_loop vec' it'')))"
  by pat_completeness auto
termination
  apply (relation "measure (\<lambda>(vec, it). case it of At i \<Rightarrow> length vec - i | Invalidated \<Rightarrow> 0)")
   apply (auto split: if_splits)
  done

definition remove_evens :: "cint list \<Rightarrow> undefined_behaviour + cint list" where
  "remove_evens vec = remove_evens_loop vec (At 0)"


section \<open>Properties of \<open>remove_evens\<close>\<close>

lemma is_even_iff: "is_even x \<longleftrightarrow> even (sint x)"
proof -
  have "k smod 2 = 0 \<longleftrightarrow> even k" for k :: int
    by (auto simp: signed_modulo_int_def sgn_if abs_if split: if_splits)
  then show ?thesis by (simp add: is_even_def)
qed

lemma remove_evens_loop_odd:
  "i \<le> length vec \<Longrightarrow> \<forall>j. i \<le> j \<and> j < length vec \<longrightarrow> \<not> is_even (vec ! j)
   \<Longrightarrow> remove_evens_loop vec (At i) = Inr vec"
proof (induction "length vec - i" arbitrary: i)
  case 0
  then show ?case by simp
next
  case (Suc n)
  then have lt: "i < length vec" by simp
  with Suc.prems have odd_i: "\<not> is_even (vec ! i)" by simp
  have "remove_evens_loop vec (At (Suc i)) = Inr vec"
    using Suc lt by (intro Suc.hyps(1)) auto
  with lt odd_i show ?case by simp
qed

text \<open>
  C10. On every vector with no even element, the empty vector included, \<open>remove_evens\<close>
  returns (the function is total, and its result is not an undefined-behaviour error) and
  the vector it leaves is the one it was given: the erase branch is never taken.
\<close>

theorem remove_evens_unchanged:
  "\<forall>x \<in> set vec. odd (sint x) \<Longrightarrow> remove_evens vec = Inr vec"
  unfolding remove_evens_def
  by (rule remove_evens_loop_odd) (simp_all add: is_even_iff)

theorem remove_evens_unchanged_witness:
  "remove_evens [1, -3, 5] = Inr [1, -3, 5] \<and> remove_evens [] = Inr []"
  using remove_evens_unchanged [of "[1, -3, 5]"] remove_evens_unchanged [of "[]"] by simp

end
